theory Spec2Isabelle
  imports Complex_Main "HOL-Library.Product_Lexorder"
begin

section \<open>Numbers\<close>

text \<open>
  The dashboard controller computes with JavaScript numbers. Counts are natural numbers;
  fees and percentages are modelled as exact rationals. A division is the one operation
  of the controller that can leave the finite numbers (\<open>x / 0\<close> is \<open>NaN\<close> or an infinity
  in JavaScript), so it is modelled as a partial operation: \<open>None\<close> stands for a result
  that is not a finite number, and arithmetic on such a result stays \<open>None\<close>.
\<close>

definition js_div :: "rat \<Rightarrow> rat \<Rightarrow> rat option" where
  "js_div a b = (if b = 0 then None else Some (a / b))"

text \<open>\<open>Math.round\<close>: the nearest integer, a tie going towards plus infinity.\<close>

definition Math_round :: "rat \<Rightarrow> int" where
  "Math_round x = \<lfloor>x + 1 / 2\<rfloor>"

text \<open>\<open>x || 0\<close> on a number: \<open>0\<close> is the only falsy finite number.\<close>

definition or_zero :: "'a::zero \<Rightarrow> 'a" where
  "or_zero x = (if x = 0 then 0 else x)"

section \<open>Dates\<close>

text \<open>
  A \<open>Date\<close> is represented by its calendar fields (proleptic Gregorian calendar): the
  year, the month index \<open>0..11\<close> as \<open>getMonth\<close> returns it, the day of the month and the
  milliseconds elapsed since midnight. The server is taken to run in UTC, so that the
  local-time constructor \<open>new Date(y, m, d)\<close>, the local getters and the data store's
  UTC operators \<open>$year\<close> and \<open>$month\<close> read the same fields. Two instants compare as
  their field tuples do, lexicographically.
\<close>

record date =
  year :: int
  month0 :: nat
  day :: nat
  msOfDay :: nat

definition instant :: "date \<Rightarrow> int \<times> nat \<times> nat \<times> nat" where
  "instant d = (year d, month0 d, day d, msOfDay d)"

definition getFullYear :: "date \<Rightarrow> int" where
  "getFullYear d = year d"

definition getMonth :: "date \<Rightarrow> nat" where
  "getMonth d = month0 d"

definition is_leap :: "int \<Rightarrow> bool" where
  "is_leap y = (y mod 4 = 0 \<and> (y mod 100 \<noteq> 0 \<or> y mod 400 = 0))"

definition days_in_month :: "int \<Rightarrow> nat \<Rightarrow> nat" where
  "days_in_month y m =
     (if m = 1 then (if is_leap y then 29 else 28)
      else if m = 3 \<or> m = 5 \<or> m = 8 \<or> m = 10 then 30
      else 31)"

text \<open>
  The \<open>Date\<close> constructor reads a year argument between 0 and 99 as a year of the
  twentieth century, and carries a month index outside \<open>0..11\<close> into the year.
\<close>

definition full_year :: "int \<Rightarrow> int" where
  "full_year y = (if 0 \<le> y \<and> y \<le> 99 then 1900 + y else y)"

text \<open>\<open>new Date(y, m, 1)\<close>: midnight of the first day of a month.\<close>

definition new_Date_1 :: "int \<Rightarrow> int \<Rightarrow> date" where
  "new_Date_1 y m =
     (let ym = full_year y * 12 + m
      in \<lparr>year = ym div 12, month0 = nat (ym mod 12), day = 1, msOfDay = 0\<rparr>)"

text \<open>
  \<open>new Date(y, m, 0)\<close>: day 0 of a month is the day before its first day, that is
  midnight (00:00:00.000) of the last day of the month before.
\<close>

definition new_Date_0 :: "int \<Rightarrow> int \<Rightarrow> date" where
  "new_Date_0 y m =
     (let ym = full_year y * 12 + m - 1
      in \<lparr>year = ym div 12, month0 = nat (ym mod 12),
          day = days_in_month (ym div 12) (nat (ym mod 12)), msOfDay = 0\<rparr>)"

text \<open>The date boundaries of the overview, relative to the server's current time.\<close>

definition startOfMonth :: "date \<Rightarrow> date" where
  "startOfMonth now = new_Date_1 (getFullYear now) (int (getMonth now))"

definition startOfLastMonth :: "date \<Rightarrow> date" where
  "startOfLastMonth now = new_Date_1 (getFullYear now) (int (getMonth now) - 1)"

definition endOfLastMonth :: "date \<Rightarrow> date" where
  "endOfLastMonth now = new_Date_0 (getFullYear now) (int (getMonth now))"

text \<open>The data store's \<open>$year\<close> and \<open>$month\<close> (months numbered from 1).\<close>

definition year_month :: "date \<Rightarrow> int \<times> nat" where
  "year_month d = (year d, month0 d + 1)"

section \<open>Records of the data store\<close>

text \<open>
  The admission model is not among the sources; its fields are those the controller
  reads. The type of the grouping keys \<open>class\<close> and \<open>batch\<close> is a parameter: any type
  with a linear order, the order \<open>$sort\<close> uses.
\<close>

datatype adm_status = Active | Pending | Inactive | Completed

record 'k admission =
  name :: string
  adm_class :: 'k
  batch :: 'k
  admissionDate :: date
  status :: adm_status
  monthlyFee :: rat

text \<open>
  A stored user document. The schema of the user model declares \<open>role\<close> but no
  \<open>isActive\<close> field, which the staff query nevertheless reads: it is modelled as a field
  a document may lack.
\<close>

datatype user_role = Student | Teacher | Admin

record user_doc =
  role :: user_role
  isActive :: "bool option"

record 'k store =
  admissions :: "'k admission list"
  users :: "user_doc list"

section \<open>Query filters\<close>

text \<open>
  A filter document is a conjunction of conditions on fields; a field the filter does
  not mention is unconstrained. \<open>status: "active"\<close> is the one-element \<open>$in\<close>.
\<close>

record adm_filter =
  status_in :: "adm_status list option"
  date_gte :: "date option"
  date_lte :: "date option"

definition any_admission :: adm_filter where
  "any_admission = \<lparr>status_in = None, date_gte = None, date_lte = None\<rparr>"

definition adm_matches :: "adm_filter \<Rightarrow> 'k admission \<Rightarrow> bool" where
  "adm_matches f a =
     ((case status_in f of None \<Rightarrow> True | Some ss \<Rightarrow> status a \<in> set ss) \<and>
      (case date_gte f of None \<Rightarrow> True | Some d \<Rightarrow> instant d \<le> instant (admissionDate a)) \<and>
      (case date_lte f of None \<Rightarrow> True | Some d \<Rightarrow> instant (admissionDate a) \<le> instant d))"

record user_filter =
  role_in :: "user_role list option"
  isActive_eq :: "bool option"

definition user_matches :: "user_filter \<Rightarrow> user_doc \<Rightarrow> bool" where
  "user_matches f u =
     ((case role_in f of None \<Rightarrow> True | Some rs \<Rightarrow> role u \<in> set rs) \<and>
      (case isActive_eq f of None \<Rightarrow> True | Some b \<Rightarrow> isActive u = Some b))"

text \<open>What \<open>countDocuments(filter)\<close> returns on a collection.\<close>

definition count_admissions :: "adm_filter \<Rightarrow> 'k admission list \<Rightarrow> nat" where
  "count_admissions f docs = length (filter (adm_matches f) docs)"

definition count_users :: "user_filter \<Rightarrow> user_doc list \<Rightarrow> nat" where
  "count_users f docs = length (filter (user_matches f) docs)"

section \<open>Aggregation stages\<close>

text \<open>
  \<open>$group\<close>: one output document per distinct key, holding the accumulators folded over
  the documents of the group. The groups are produced in the order of first occurrence;
  every pipeline of the controller that has more than one group sorts them afterwards.
\<close>

fun upsert :: "'g \<Rightarrow> ('v \<Rightarrow> 'v) \<Rightarrow> 'v \<Rightarrow> ('g \<times> 'v) list \<Rightarrow> ('g \<times> 'v) list" where
  "upsert g f v0 [] = [(g, f v0)]"
| "upsert g f v0 ((h, v) # gs) =
     (if h = g then (h, f v) # gs else (h, v) # upsert g f v0 gs)"

definition group_stage ::
  "('a \<Rightarrow> 'g) \<Rightarrow> ('a \<Rightarrow> 'v \<Rightarrow> 'v) \<Rightarrow> 'v \<Rightarrow> 'a list \<Rightarrow> ('g \<times> 'v) list" where
  "group_stage key acc v0 docs = foldl (\<lambda>gs d. upsert (key d) (acc d) v0 gs) [] docs"

definition match_stage :: "adm_filter \<Rightarrow> 'k admission list \<Rightarrow> 'k admission list" where
  "match_stage f docs = filter (adm_matches f) docs"

text \<open>\<open>$sort: { _id: 1 }\<close>, ascending by the group key.\<close>

definition sort_stage :: "('g::linorder \<times> 'v) list \<Rightarrow> ('g \<times> 'v) list" where
  "sort_stage gs = sort_key fst gs"

text \<open>\<open>sort({ admissionDate: -1 })\<close>: descending, documents of equal date in stored order.\<close>

fun insert_desc :: "('a \<Rightarrow> 'b::linorder) \<Rightarrow> 'a \<Rightarrow> 'a list \<Rightarrow> 'a list" where
  "insert_desc f x [] = [x]"
| "insert_desc f x (y # ys) = (if f y \<le> f x then x # y # ys else y # insert_desc f x ys)"

definition sort_desc :: "('a \<Rightarrow> 'b::linorder) \<Rightarrow> 'a list \<Rightarrow> 'a list" where
  "sort_desc f xs = foldr (insert_desc f) xs []"

section \<open>Requests, responses and the report\<close>

text \<open>
  The authentication middleware is not among the sources. It attaches to the request an
  optional \<open>user\<close> whose \<open>userId\<close> the controller reads through \<open>req.user?.userId\<close>.
\<close>

record auth_user =
  userId :: "string option"

record request =
  user :: "auth_user option"

definition req_userId :: "request \<Rightarrow> string option" where
  "req_userId req = (case user req of None \<Rightarrow> None | Some u \<Rightarrow> userId u)"

text \<open>\<open>!userId\<close>: an absent identifier and the empty string are falsy.\<close>

definition falsy :: "string option \<Rightarrow> bool" where
  "falsy u = (case u of None \<Rightarrow> True | Some s \<Rightarrow> s = [])"

record overview_section =
  totalStudents :: nat
  totalTeachers :: nat
  newAdmissionsThisMonth :: nat
  pendingAdmissions :: nat
  inactiveStudents :: nat
  monthlyRevenue :: int
  avgMonthlyFee :: int

record growth_section =
  studentGrowth :: "rat option"
  admissionGrowth :: "rat option"

record 'k distribution_section =
  byClass :: "('k \<times> nat) list"
  byBatch :: "('k \<times> nat) list"

record 'k recent_admission =
  recent_name :: string
  recent_class :: 'k
  recent_batch :: 'k
  recent_admissionDate :: date
  recent_status :: adm_status

record trend =
  trend_id :: "int \<times> nat"
  trend_count :: nat
  trend_revenue :: rat

record 'k report =
  overview :: overview_section
  growth :: growth_section
  distribution :: "'k distribution_section"
  recentAdmissions :: "'k recent_admission list"
  monthlyTrends :: "trend list"

record quick_stats =
  totalActive :: nat
  totalPending :: nat
  staffTotal :: nat

text \<open>
  A JSON body is either \<open>{success: true, data}\<close> or \<open>{success: false, message}\<close> with an
  optional \<open>error\<close> text.
\<close>

datatype 'd json_body = OkBody 'd | ErrBody string "string option"

record 'd response =
  http_status :: nat
  body :: "'d json_body"

section \<open>Effects: queries and their failures\<close>

text \<open>
  A handler runs against the store and keeps the list of the queries it has issued. A
  query may fail: the fault plan \<open>F\<close> says, for the \<open>k\<close>-th query of a request, whether
  it throws and what. A thrown value is an \<open>Error\<close> with its message, or some other value.
  Every operation the controller uses reads the store and leaves it as it is.
\<close>

datatype collection = AdmissionModel | UserModel

datatype operation = CountDocuments | Aggregate | Find

datatype thrown = ErrorObj string | OtherValue

type_synonym query = "collection \<times> operation"

type_synonym 'k run = "'k store \<times> query list"

type_synonym ('k, 'a) io = "'k run \<Rightarrow> (thrown + 'a) \<times> 'k run"

definition issue :: "(nat \<Rightarrow> thrown option) \<Rightarrow> query \<Rightarrow> ('k store \<Rightarrow> 'a) \<Rightarrow> ('k, 'a) io" where
  "issue F q f =
     (\<lambda>(s, qs). (case F (length qs) of Some t \<Rightarrow> Inl t | None \<Rightarrow> Inr (f s), (s, qs @ [q])))"

definition return_io :: "'a \<Rightarrow> ('k, 'a) io" where
  "return_io x = (\<lambda>st. (Inr x, st))"

text \<open>\<open>await\<close> in a \<open>try\<close> block: a failure skips the rest of the block.\<close>

definition await :: "('k, 'a) io \<Rightarrow> ('a \<Rightarrow> ('k, 'b) io) \<Rightarrow> ('k, 'b) io" where
  "await m k = (\<lambda>st. case m st of (Inl t, st') \<Rightarrow> (Inl t, st') | (Inr x, st') \<Rightarrow> k x st')"

definition Admission_countDocuments ::
  "(nat \<Rightarrow> thrown option) \<Rightarrow> adm_filter \<Rightarrow> ('k, nat) io" where
  "Admission_countDocuments F f =
     issue F (AdmissionModel, CountDocuments) (\<lambda>s. count_admissions f (admissions s))"

definition User_countDocuments ::
  "(nat \<Rightarrow> thrown option) \<Rightarrow> user_filter \<Rightarrow> ('k, nat) io" where
  "User_countDocuments F f =
     issue F (UserModel, CountDocuments) (\<lambda>s. count_users f (users s))"

definition Admission_aggregate ::
  "(nat \<Rightarrow> thrown option) \<Rightarrow> ('k admission list \<Rightarrow> 'r) \<Rightarrow> ('k, 'r) io" where
  "Admission_aggregate F pipeline =
     issue F (AdmissionModel, Aggregate) (\<lambda>s. pipeline (admissions s))"

definition Admission_find_recent ::
  "(nat \<Rightarrow> thrown option) \<Rightarrow> nat \<Rightarrow> ('k, 'k recent_admission list) io" where
  "Admission_find_recent F n =
     issue F (AdmissionModel, Find)
       (\<lambda>s. map (\<lambda>a. \<lparr>recent_name = name a, recent_class = adm_class a, recent_batch = batch a,
                       recent_admissionDate = admissionDate a, recent_status = status a\<rparr>)
               (take n (sort_desc (\<lambda>a. instant (admissionDate a)) (admissions s))))"

section \<open>The dashboard controller\<close>

text \<open>
  The growth expression, written twice in the controller (for \<open>studentGrowth\<close> and, with
  the admission counts, for \<open>admissionGrowth\<close>). The difference of the counts is taken in
  the numbers, where it may be negative.
\<close>

definition growth_expr :: "nat \<Rightarrow> nat \<Rightarrow> rat option" where
  "growth_expr thisMonth lastMonth =
     (if lastMonth > 0
      then map_option (\<lambda>q. q * 100) (js_div (of_nat thisMonth - of_nat lastMonth) (of_nat lastMonth))
      else if thisMonth > 0 then Some 100 else Some 0)"

text \<open>\<open>Math.round(g * 10) / 10\<close>\<close>

definition round_tenth :: "rat option \<Rightarrow> rat option" where
  "round_tenth g = map_option (\<lambda>v. of_int (Math_round (v * 10)) / 10) g"

definition active_only :: adm_filter where
  "active_only = \<lparr>status_in = Some [Active], date_gte = None, date_lte = None\<rparr>"

definition staff_filter :: user_filter where
  "staff_filter = \<lparr>role_in = Some [Teacher, Admin], isActive_eq = Some True\<rparr>"

text \<open>The date conditions of the two month windows.\<close>

definition this_month :: "date \<Rightarrow> adm_filter \<Rightarrow> adm_filter" where
  "this_month now f = f\<lparr>date_gte := Some (startOfMonth now)\<rparr>"

definition last_month :: "date \<Rightarrow> adm_filter \<Rightarrow> adm_filter" where
  "last_month now f =
     f\<lparr>date_gte := Some (startOfLastMonth now), date_lte := Some (endOfLastMonth now)\<rparr>"

text \<open>
  The revenue pipeline: \<open>$match\<close> the active admissions, \<open>$group\<close> them under the single
  key \<open>null\<close> with the sum and the average of \<open>monthlyFee\<close>. A row is
  \<open>(totalMonthlyRevenue, avgMonthlyFee)\<close>; there is no row when nothing matches. The
  average of a group divides by the number of its documents, which is positive.
\<close>

definition revenue_pipeline :: "'k admission list \<Rightarrow> (rat \<times> rat) list" where
  "revenue_pipeline docs =
     map (\<lambda>(u, (total, n)). (total, total / of_nat n))
       (group_stage (\<lambda>a. ()) (\<lambda>a (total, n). (total + monthlyFee a, n + 1)) (0, 0::nat)
          (match_stage active_only docs))"

definition count_by :: "('k admission \<Rightarrow> 'k::linorder) \<Rightarrow> 'k admission list \<Rightarrow> ('k \<times> nat) list" where
  "count_by key docs =
     sort_stage (group_stage key (\<lambda>a n. n + 1) 0 (match_stage active_only docs))"

definition trends_pipeline :: "date \<Rightarrow> 'k admission list \<Rightarrow> ((int \<times> nat) \<times> (nat \<times> rat)) list" where
  "trends_pipeline now docs =
     sort_stage
       (group_stage (\<lambda>a. year_month (admissionDate a))
          (\<lambda>a (n, revenue). (n + 1, revenue + monthlyFee a)) (0, 0)
          (match_stage
             \<lparr>status_in = None,
              date_gte = Some (new_Date_1 (getFullYear now) (int (getMonth now) - 5)),
              date_lte = None\<rparr>
             docs))"

text \<open>One round of the loop that fills the trend series, for the month \<open>i\<close> months back.\<close>

definition trend_entry :: "date \<Rightarrow> ((int \<times> nat) \<times> (nat \<times> rat)) list \<Rightarrow> nat \<Rightarrow> trend" where
  "trend_entry now raw i =
     (let targetDate = new_Date_1 (getFullYear now) (int (getMonth now) - int i);
          yr = getFullYear targetDate;
          mo = getMonth targetDate + 1;
          existingData = find (\<lambda>item. fst (fst item) = yr \<and> snd (fst item) = mo) raw
      in \<lparr>trend_id = (yr, mo),
          trend_count = (case existingData of None \<Rightarrow> 0 | Some item \<Rightarrow> or_zero (fst (snd item))),
          trend_revenue = (case existingData of None \<Rightarrow> 0 | Some item \<Rightarrow> or_zero (snd (snd item)))\<rparr>)"

text \<open>\<open>for (let i = 5; i >= 0; i--)\<close>, pushing one entry per round.\<close>

fun fill_months :: "date \<Rightarrow> ((int \<times> nat) \<times> (nat \<times> rat)) list \<Rightarrow> nat \<Rightarrow> trend list \<Rightarrow> trend list" where
  "fill_months now raw 0 acc = acc @ [trend_entry now raw 0]"
| "fill_months now raw (Suc i) acc = fill_months now raw i (acc @ [trend_entry now raw (Suc i)])"

text \<open>The body of the \<open>try\<close> block of \<open>getDashboardOverview\<close>, after the identity check.\<close>

definition overview_body :: "(nat \<Rightarrow> thrown option) \<Rightarrow> date \<Rightarrow> ('k::linorder, 'k report) io" where
  "overview_body F now =
     await (Admission_countDocuments F active_only) (\<lambda>totalStudents'.
     await (Admission_countDocuments F (this_month now active_only)) (\<lambda>studentsThisMonth.
     await (Admission_countDocuments F (last_month now active_only)) (\<lambda>studentsLastMonth.
     await (User_countDocuments F staff_filter) (\<lambda>totalTeachers'.
     await (Admission_countDocuments F (this_month now any_admission)) (\<lambda>newAdmissionsThisMonth'.
     await (Admission_countDocuments F (last_month now any_admission)) (\<lambda>newAdmissionsLastMonth.
     await (Admission_countDocuments F
              (any_admission\<lparr>status_in := Some [Pending]\<rparr>)) (\<lambda>pendingAdmissions'.
     await (Admission_countDocuments F
              (any_admission\<lparr>status_in := Some [Inactive, Completed]\<rparr>)) (\<lambda>inactiveStudents'.
     await (Admission_aggregate F revenue_pipeline) (\<lambda>revenueData.
     await (Admission_aggregate F (count_by adm_class)) (\<lambda>studentsByClass.
     await (Admission_aggregate F (count_by batch)) (\<lambda>studentsByBatch.
     await (Admission_find_recent F 5) (\<lambda>recentAdmissions'.
     await (Admission_aggregate F (trends_pipeline now)) (\<lambda>monthlyTrendsRaw.
     return_io
       \<lparr>overview =
          \<lparr>totalStudents = totalStudents',
           totalTeachers = totalTeachers',
           newAdmissionsThisMonth = newAdmissionsThisMonth',
           pendingAdmissions = pendingAdmissions',
           inactiveStudents = inactiveStudents',
           monthlyRevenue =
             Math_round (case revenueData of [] \<Rightarrow> 0 | row # rest \<Rightarrow> fst row),
           avgMonthlyFee =
             Math_round (case revenueData of [] \<Rightarrow> 0 | row # rest \<Rightarrow> snd row)\<rparr>,
        growth =
          \<lparr>studentGrowth = round_tenth (growth_expr studentsThisMonth studentsLastMonth),
           admissionGrowth =
             round_tenth (growth_expr newAdmissionsThisMonth' newAdmissionsLastMonth)\<rparr>,
        distribution = \<lparr>byClass = studentsByClass, byBatch = studentsByBatch\<rparr>,
        recentAdmissions = recentAdmissions',
        monthlyTrends = fill_months now monthlyTrendsRaw 5 []\<rparr>)))))))))))))"

definition error_text :: "thrown \<Rightarrow> string" where
  "error_text t = (case t of ErrorObj m \<Rightarrow> m | OtherValue \<Rightarrow> ''Unknown error'')"

text \<open>
  The handlers. Each takes the fault plan, the request and the store (the overview also
  the server's current time) and returns the response, the store as the handler leaves
  it and the queries the handler has issued.
\<close>

definition getDashboardOverview ::
  "(nat \<Rightarrow> thrown option) \<Rightarrow> date \<Rightarrow> request \<Rightarrow> 'k::linorder store
     \<Rightarrow> 'k report response \<times> 'k store \<times> query list" where
  "getDashboardOverview F now req s =
     (if falsy (req_userId req)
      then (\<lparr>http_status = 401,
             body = ErrBody ''Unauthorized - User not authenticated'' None\<rparr>, s, [])
      else (case overview_body F now (s, []) of
              (Inr r, st) \<Rightarrow> (\<lparr>http_status = 200, body = OkBody r\<rparr>, st)
            | (Inl t, st) \<Rightarrow>
                (\<lparr>http_status = 500,
                  body = ErrBody ''Failed to fetch dashboard data'' (Some (error_text t))\<rparr>, st)))"

definition quick_body :: "(nat \<Rightarrow> thrown option) \<Rightarrow> ('k, quick_stats) io" where
  "quick_body F =
     await (Admission_countDocuments F active_only) (\<lambda>totalActive'.
     await (Admission_countDocuments F (any_admission\<lparr>status_in := Some [Pending]\<rparr>)) (\<lambda>totalPending'.
     await (User_countDocuments F staff_filter) (\<lambda>totalTeachers'.
     return_io \<lparr>totalActive = totalActive', totalPending = totalPending',
                staffTotal = totalTeachers'\<rparr>)))"

definition getQuickStats ::
  "(nat \<Rightarrow> thrown option) \<Rightarrow> request \<Rightarrow> 'k store
     \<Rightarrow> quick_stats response \<times> 'k store \<times> query list" where
  "getQuickStats F req s =
     (if falsy (req_userId req)
      then (\<lparr>http_status = 401, body = ErrBody ''Unauthorized'' None\<rparr>, s, [])
      else (case quick_body F (s, []) of
              (Inr r, st) \<Rightarrow> (\<lparr>http_status = 200, body = OkBody r\<rparr>, st)
            | (Inl t, st) \<Rightarrow>
                (\<lparr>http_status = 500, body = ErrBody ''Failed to fetch stats'' None\<rparr>, st)))"

section \<open>Vocabulary of the properties\<close>

text \<open>The report of a successful response.\<close>

definition report_of :: "'d response \<Rightarrow> 'd option" where
  "report_of resp = (case body resp of OkBody d \<Rightarrow> Some d | ErrBody m e \<Rightarrow> None)"



text \<open>A user who counts as staff: a teacher or an admin whose \<open>isActive\<close> field is true.\<close>

definition is_active_staff :: "user_doc \<Rightarrow> bool" where
  "is_active_staff u = ((role u = Teacher \<or> role u = Admin) \<and> isActive u = Some True)"

text \<open>The calendar month after a month \<open>(year, month)\<close>, months numbered from 1.\<close>

definition next_month :: "int \<times> nat \<Rightarrow> int \<times> nat" where
  "next_month ym = (if snd ym = 12 then (fst ym + 1, 1) else (fst ym, snd ym + 1))"

text \<open>The calendar month with index \<open>k\<close>, the months counted on from January of year 0.\<close>

definition month_id :: "int \<Rightarrow> int \<times> nat" where
  "month_id k = (k div 12, nat (k mod 12) + 1)"


text \<open>
  A current time the server's clock can show: a month index below 12 and a year outside
  \<open>0..99\<close>, the years which the \<open>Date\<close> constructor would move to the twentieth century.
\<close>

definition wf_now :: "date \<Rightarrow> bool" where
  "wf_now now = (month0 now < 12 \<and> (year now < 0 \<or> 99 < year now))"

text \<open>The date \<open>d\<close> lies in the calendar month before the month of \<open>now\<close>.\<close>

definition in_previous_month :: "date \<Rightarrow> date \<Rightarrow> bool" where
  "in_previous_month now d =
     (if month0 now = 0 then year d = year now - 1 \<and> month0 d = 11
      else year d = year now \<and> month0 d + 1 = month0 now)"

text \<open>The admissions with \<open>status = active\<close>.\<close>

definition active_admissions :: "'k admission list \<Rightarrow> 'k admission list" where
  "active_admissions docs = filter (\<lambda>a. status a = Active) docs"


section \<open>Sample data\<close>

text \<open>
  A store of five admissions and four users, read on 15 March 2024 at 10:00. Classes and
  batches are numbered.
\<close>

definition sample_now :: date where
  "sample_now = \<lparr>year = 2024, month0 = 2, day = 15, msOfDay = 36000000\<rparr>"

definition sample_admissions :: "nat admission list" where
  "sample_admissions =
     [\<lparr>name = ''Asha'', adm_class = 9, batch = 1,
       admissionDate = \<lparr>year = 2024, month0 = 1, day = 10, msOfDay = 0\<rparr>,
       status = Active, monthlyFee = 1500\<rparr>,
      \<lparr>name = ''Bilal'', adm_class = 8, batch = 2,
       admissionDate = \<lparr>year = 2024, month0 = 1, day = 20, msOfDay = 32400000\<rparr>,
       status = Active, monthlyFee = 2001 / 2\<rparr>,
      \<lparr>name = ''Chaya'', adm_class = 9, batch = 1,
       admissionDate = \<lparr>year = 2024, month0 = 1, day = 28, msOfDay = 0\<rparr>,
       status = Pending, monthlyFee = 1200\<rparr>,
      \<lparr>name = ''Dipu'', adm_class = 9, batch = 2,
       admissionDate = \<lparr>year = 2024, month0 = 2, day = 2, msOfDay = 61200000\<rparr>,
       status = Active, monthlyFee = 1800\<rparr>,
      \<lparr>name = ''Esha'', adm_class = 10, batch = 1,
       admissionDate = \<lparr>year = 2023, month0 = 11, day = 5, msOfDay = 0\<rparr>,
       status = Completed, monthlyFee = 900\<rparr>]"

definition sample_users :: "user_doc list" where
  "sample_users =
     [\<lparr>role = Teacher, isActive = Some True\<rparr>, \<lparr>role = Admin, isActive = None\<rparr>,
      \<lparr>role = Student, isActive = Some True\<rparr>, \<lparr>role = Teacher, isActive = Some False\<rparr>]"

definition sample_store :: "nat store" where
  "sample_store = \<lparr>admissions = sample_admissions, users = sample_users\<rparr>"

definition sample_request :: request where
  "sample_request = \<lparr>user = Some \<lparr>userId = Some ''u1''\<rparr>\<rparr>"

definition anonymous_request :: request where
  "anonymous_request = \<lparr>user = None\<rparr>"

definition no_faults :: "nat \<Rightarrow> thrown option" where
  "no_faults k = None"


text \<open>The thirteen queries of an overview, in the order in which they are issued.\<close>

definition overview_queries :: "query list" where
  "overview_queries =
     [(AdmissionModel, CountDocuments), (AdmissionModel, CountDocuments),
      (AdmissionModel, CountDocuments), (UserModel, CountDocuments),
      (AdmissionModel, CountDocuments), (AdmissionModel, CountDocuments),
      (AdmissionModel, CountDocuments), (AdmissionModel, CountDocuments),
      (AdmissionModel, Aggregate), (AdmissionModel, Aggregate),
      (AdmissionModel, Aggregate), (AdmissionModel, Find),
      (AdmissionModel, Aggregate)]"

text \<open>The report of the sample store at the sample time.\<close>

definition sample_report :: "nat report" where
  "sample_report =
     \<lparr>overview =
        \<lparr>totalStudents = 3, totalTeachers = 1, newAdmissionsThisMonth = 1,
         pendingAdmissions = 1, inactiveStudents = 1, monthlyRevenue = 4301,
         avgMonthlyFee = 1434\<rparr>,
      growth = \<lparr>studentGrowth = Some (- 50), admissionGrowth = Some (- (667 / 10))\<rparr>,
      distribution = \<lparr>byClass = [(8, 1), (9, 2)], byBatch = [(1, 1), (2, 2)]\<rparr>,
      recentAdmissions =
        [\<lparr>recent_name = ''Dipu'', recent_class = 9, recent_batch = 2,
          recent_admissionDate = \<lparr>year = 2024, month0 = 2, day = 2, msOfDay = 61200000\<rparr>,
          recent_status = Active\<rparr>,
         \<lparr>recent_name = ''Chaya'', recent_class = 9, recent_batch = 1,
          recent_admissionDate = \<lparr>year = 2024, month0 = 1, day = 28, msOfDay = 0\<rparr>,
          recent_status = Pending\<rparr>,
         \<lparr>recent_name = ''Bilal'', recent_class = 8, recent_batch = 2,
          recent_admissionDate = \<lparr>year = 2024, month0 = 1, day = 20, msOfDay = 32400000\<rparr>,
          recent_status = Active\<rparr>,
         \<lparr>recent_name = ''Asha'', recent_class = 9, recent_batch = 1,
          recent_admissionDate = \<lparr>year = 2024, month0 = 1, day = 10, msOfDay = 0\<rparr>,
          recent_status = Active\<rparr>,
         \<lparr>recent_name = ''Esha'', recent_class = 10, recent_batch = 1,
          recent_admissionDate = \<lparr>year = 2023, month0 = 11, day = 5, msOfDay = 0\<rparr>,
          recent_status = Completed\<rparr>],
      monthlyTrends =
        [\<lparr>trend_id = (2023, 10), trend_count = 0, trend_revenue = 0\<rparr>,
         \<lparr>trend_id = (2023, 11), trend_count = 0, trend_revenue = 0\<rparr>,
         \<lparr>trend_id = (2023, 12), trend_count = 1, trend_revenue = 900\<rparr>,
         \<lparr>trend_id = (2024, 1), trend_count = 0, trend_revenue = 0\<rparr>,
         \<lparr>trend_id = (2024, 2), trend_count = 3, trend_revenue = 7401 / 2\<rparr>,
         \<lparr>trend_id = (2024, 3), trend_count = 1, trend_revenue = 1800\<rparr>]\<rparr>"



text \<open>
  Two active admissions: one at noon of 29 February 2024, the last day of the month
  before the sample time, and one in March.
\<close>

definition leap_day_admissions :: "nat admission list" where
  "leap_day_admissions =
     [\<lparr>name = ''Farid'', adm_class = 7, batch = 1,
       admissionDate = \<lparr>year = 2024, month0 = 1, day = 29, msOfDay = 43200000\<rparr>,
       status = Active, monthlyFee = 1000\<rparr>,
      \<lparr>name = ''Gita'', adm_class = 7, batch = 1,
       admissionDate = \<lparr>year = 2024, month0 = 2, day = 3, msOfDay = 0\<rparr>,
       status = Active, monthlyFee = 1000\<rparr>]"

section \<open>Auxiliary facts\<close>

subsection \<open>Numbers\<close>

lemma floor_rat_divide_numeral [simp]:
  "\<lfloor>numeral a / numeral b :: rat\<rfloor> = numeral a div numeral b"
  by (metis floor_divide_of_int_eq of_int_numeral)

lemma floor_rat_minus_divide_numeral [simp]:
  "\<lfloor>- (numeral a / numeral b) :: rat\<rfloor> = - numeral a div numeral b"
  by (metis floor_divide_of_int_eq of_int_numeral of_int_minus minus_divide_left)

lemma floor_rat_one_divide_numeral [simp]:
  "\<lfloor>1 / numeral b :: rat\<rfloor> = 1 div numeral b"
  by (metis floor_divide_of_int_eq of_int_numeral of_int_1)



subsection \<open>Queries in sequence\<close>

lemmas store_ops =
  Admission_countDocuments_def User_countDocuments_def Admission_aggregate_def
  Admission_find_recent_def

lemma await_issue:
  "await (issue F q f) k (s, qs) =
     (case F (length qs) of
        Some t \<Rightarrow> (Inl t, (s, qs @ [q]))
      | None \<Rightarrow> k (f s) (s, qs @ [q]))"
  by (simp add: await_def issue_def split: option.splits)


lemma quick_body_store: "quick_body F (s, []) = (x, st) \<Longrightarrow> fst st = s"
  by (auto simp: quick_body_def store_ops await_issue return_io_def split: option.splits)


lemma overview_ok:
  assumes "getDashboardOverview F now req s = (resp, s', qs)" and "body resp = OkBody r"
  shows "overview_body F now (s, []) = (Inr r, (s', qs))"
  using assms
  by (auto simp: getDashboardOverview_def split: if_splits prod.splits sum.splits)

lemma quick_ok:
  assumes "getQuickStats F req s = (resp, s', qs)" and "body resp = OkBody q"
  shows "quick_body F (s, []) = (Inr q, (s', qs))"
  using assms
  by (auto simp: getQuickStats_def split: if_splits prod.splits sum.splits)

lemma overview_body_Inr:
  assumes "overview_body F now (s, []) = (Inr r, st)"
  shows "st = (s, overview_queries)"
    and "totalTeachers (overview r) = count_users staff_filter (users s)"
    and "studentGrowth (growth r) =
           round_tenth (growth_expr (count_admissions (this_month now active_only) (admissions s))
             (count_admissions (last_month now active_only) (admissions s)))"
    and "admissionGrowth (growth r) =
           round_tenth (growth_expr (count_admissions (this_month now any_admission) (admissions s))
             (count_admissions (last_month now any_admission) (admissions s)))"
    and "monthlyRevenue (overview r) =
           Math_round (case revenue_pipeline (admissions s) of [] \<Rightarrow> 0 | row # rest \<Rightarrow> fst row)"
    and "avgMonthlyFee (overview r) =
           Math_round (case revenue_pipeline (admissions s) of [] \<Rightarrow> 0 | row # rest \<Rightarrow> snd row)"
    and "byClass (distribution r) = count_by adm_class (admissions s)"
    and "byBatch (distribution r) = count_by batch (admissions s)"
    and "monthlyTrends r = fill_months now (trends_pipeline now (admissions s)) 5 []"
  using assms
  by (auto simp: overview_body_def store_ops await_issue return_io_def overview_queries_def
      split: option.splits)

lemma quick_body_Inr:
  assumes "quick_body F (s, []) = (Inr q, st)"
  shows "staffTotal q = count_users staff_filter (users s)"
  using assms
  by (auto simp: quick_body_def store_ops await_issue return_io_def split: option.splits)

text \<open>
  Documents written through the schema of the user model have no \<open>isActive\<close> field;
  none of them matches the staff filter.
\<close>

lemma staff_count_without_isActive:
  assumes "\<forall>u\<in>set docs. isActive u = None"
  shows "count_users staff_filter docs = 0"
  using assms
  by (simp add: count_users_def user_matches_def staff_filter_def filter_empty_conv)

subsection \<open>Grouping and sorting\<close>

lemma upsert_keys_old:
  "g \<in> fst ` set gs \<Longrightarrow> map fst (upsert g f v0 gs) = map fst gs"
  by (induction gs) force+

lemma upsert_keys_new:
  "g \<notin> fst ` set gs \<Longrightarrow> map fst (upsert g f v0 gs) = map fst gs @ [g]"
  by (induction gs) auto

lemma upsert_key_set: "fst ` set (upsert g f v0 gs) = insert g (fst ` set gs)"
proof (cases "g \<in> fst ` set gs")
  case True
  with upsert_keys_old [OF True, of f v0]
  have "set (map fst (upsert g f v0 gs)) = set (map fst gs)"
    by simp
  with True show ?thesis by auto
next
  case False
  with upsert_keys_new [OF False, of f v0]
  have "set (map fst (upsert g f v0 gs)) = set (map fst gs @ [g])"
    by simp
  then show ?thesis by auto
qed

lemma upsert_distinct:
  "distinct (map fst gs) \<Longrightarrow> distinct (map fst (upsert g f v0 gs))"
  by (cases "g \<in> fst ` set gs") (simp_all add: upsert_keys_old upsert_keys_new)

lemma group_fold_keys:
  "fst ` set (foldl (\<lambda>gs d. upsert (key d) (acc d) v0 gs) init docs) =
     fst ` set init \<union> key ` set docs"
proof (induction docs arbitrary: init)
  case Nil
  show ?case by simp
next
  case (Cons d docs)
  show ?case
    by (simp add: Cons.IH upsert_key_set)
qed

lemma group_fold_distinct:
  "distinct (map fst init) \<Longrightarrow>
   distinct (map fst (foldl (\<lambda>gs d. upsert (key d) (acc d) v0 gs) init docs))"
proof (induction docs arbitrary: init)
  case Nil
  then show ?case by simp
next
  case (Cons d docs)
  from Cons.prems have "distinct (map fst (upsert (key d) (acc d) v0 init))"
    by (rule upsert_distinct)
  then show ?case
    using Cons.IH by simp
qed

lemma group_stage_keys: "fst ` set (group_stage key acc v0 docs) = key ` set docs"
  by (simp add: group_stage_def group_fold_keys)

lemma group_stage_distinct: "distinct (map fst (group_stage key acc v0 docs))"
  by (simp add: group_stage_def group_fold_distinct)

lemma sort_stage_sorted: "sorted (map fst (sort_stage gs))"
  by (simp add: sort_stage_def)

lemma sort_stage_set: "set (sort_stage gs) = set gs"
  by (simp add: sort_stage_def)

lemma sort_stage_distinct: "distinct (map fst (sort_stage gs)) = distinct (map fst gs)"
  by (simp add: sort_stage_def distinct_map)

lemma adm_matches_active: "adm_matches active_only = (\<lambda>a. status a = Active)"
  by (rule ext) (simp add: adm_matches_def active_only_def)

lemma match_active: "match_stage active_only docs = active_admissions docs"
  by (simp add: match_stage_def active_admissions_def adm_matches_active)

lemma count_by_sorted: "sorted (map fst (count_by key docs))"
  by (simp add: count_by_def sort_stage_sorted)

lemma count_by_distinct: "distinct (map fst (count_by key docs))"
  by (simp add: count_by_def sort_stage_distinct group_stage_distinct)

lemma count_by_keys: "fst ` set (count_by key docs) = key ` set (active_admissions docs)"
  by (simp add: count_by_def sort_stage_set group_stage_keys match_active)

subsection \<open>The trend loop\<close>

lemma fill_months_eq:
  "fill_months now raw n acc = acc @ map (trend_entry now raw) (rev [0..<Suc n])"
  by (induction n arbitrary: acc) simp_all

lemma fill_months_5:
  "fill_months now raw 5 [] = map (trend_entry now raw) [5, 4, 3, 2, 1, 0]"
proof -
  have "rev [0..<Suc 5] = [5, 4, 3, 2, 1, 0::nat]"
    by (simp add: upt_rec)
  then show ?thesis
    by (simp only: fill_months_eq append_Nil)
qed

subsection \<open>The sample run\<close>

lemmas filter_defs =
  count_admissions_def count_users_def adm_matches_def user_matches_def active_only_def
  any_admission_def staff_filter_def this_month_def last_month_def match_stage_def

lemmas date_defs =
  startOfMonth_def startOfLastMonth_def endOfLastMonth_def new_Date_1_def new_Date_0_def
  getFullYear_def getMonth_def full_year_def instant_def days_in_month_def is_leap_def
  year_month_def

lemmas pipeline_defs =
  revenue_pipeline_def count_by_def trends_pipeline_def group_stage_def sort_stage_def
  sort_desc_def trend_entry_def or_zero_def

lemmas sample_defs =
  sample_now_def sample_admissions_def sample_users_def sample_store_def sample_request_def
  no_faults_def

lemma sample_overview:
  "getDashboardOverview no_faults sample_now sample_request sample_store =
     (\<lparr>http_status = 200, body = OkBody sample_report\<rparr>, sample_store, overview_queries)"
  by (simp add: getDashboardOverview_def overview_body_def store_ops await_def issue_def
      return_io_def falsy_def req_userId_def pipeline_defs filter_defs date_defs sample_defs
      sample_report_def overview_queries_def growth_expr_def round_tenth_def js_div_def
      Math_round_def fill_months_5)

lemma sample_quick:
  "getQuickStats no_faults sample_request sample_store =
     (\<lparr>http_status = 200,
       body = OkBody \<lparr>totalActive = 3, totalPending = 1, staffTotal = 1\<rparr>\<rparr>, sample_store,
      [(AdmissionModel, CountDocuments), (AdmissionModel, CountDocuments),
       (UserModel, CountDocuments)])"
  by (simp add: getQuickStats_def quick_body_def store_ops await_def issue_def return_io_def
      falsy_def req_userId_def filter_defs sample_defs)

subsection \<open>Months\<close>

lemma succ_div_mod_12:
  fixes k :: int
  shows "k mod 12 = 11 \<Longrightarrow> (k + 1) div 12 = k div 12 + 1 \<and> (k + 1) mod 12 = 0"
    and "k mod 12 \<noteq> 11 \<Longrightarrow> (k + 1) div 12 = k div 12 \<and> (k + 1) mod 12 = k mod 12 + 1"
proof -
  have d: "(k + 1) div 12 = k div 12 + 1 div 12 + (k mod 12 + 1 mod 12) div 12"
    by (rule div_add1_eq)
  have m: "(k + 1) mod 12 = (k mod 12 + 1 mod 12) mod 12"
    by (rule mod_add_eq [symmetric])
  show "k mod 12 = 11 \<Longrightarrow> (k + 1) div 12 = k div 12 + 1 \<and> (k + 1) mod 12 = 0"
    by (simp add: d m)
  have r: "0 \<le> k mod 12" "k mod 12 < 12"
    by simp_all
  show "(k + 1) div 12 = k div 12 \<and> (k + 1) mod 12 = k mod 12 + 1" if "k mod 12 \<noteq> 11"
  proof -
    from that r have "0 \<le> k mod 12 + 1" "k mod 12 + 1 < 12"
      by simp_all
    then have "(k mod 12 + 1) div 12 = 0" "(k mod 12 + 1) mod 12 = k mod 12 + 1"
      by (simp_all only: div_pos_pos_trivial mod_pos_pos_trivial)
    then show ?thesis
      by (simp add: d m)
  qed
qed

lemma month_id_next: "month_id (k + 1) = next_month (month_id k)"
proof (cases "k mod 12 = 11")
  case True
  with succ_div_mod_12(1) [OF True] show ?thesis
    by (simp add: month_id_def next_month_def)
next
  case False
  have "0 \<le> k mod 12"
    by simp
  with False have "nat (k mod 12) + 1 \<noteq> 12"
    by arith
  moreover have "nat (k mod 12 + 1) = nat (k mod 12) + 1"
    by (simp add: nat_add_distrib)
  ultimately show ?thesis
    using succ_div_mod_12(2) [OF False] by (simp add: month_id_def next_month_def)
qed

lemma month_id_now: "m < 12 \<Longrightarrow> month_id (y * 12 + int m) = (y, m + 1)"
  by (simp add: month_id_def)

lemma trend_entry_id:
  assumes "wf_now now"
  shows "trend_id (trend_entry now raw i) = month_id (year now * 12 + int (month0 now) - int i)"
proof -
  from assms have "full_year (year now) = year now"
    by (auto simp: wf_now_def full_year_def)
  moreover have "(year now * 12 + (int (month0 now) - int i)) div 12 =
      (year now * 12 + int (month0 now) - int i) div 12"
    "(year now * 12 + (int (month0 now) - int i)) mod 12 =
      (year now * 12 + int (month0 now) - int i) mod 12"
    by (simp_all add: add_diff_eq)
  ultimately show ?thesis
    by (simp only: trend_entry_def new_Date_1_def getFullYear_def getMonth_def month_id_def Let_def
        date.simps trend.simps)
qed

lemma trends_pipeline_keys:
  "fst ` set (trends_pipeline now docs) \<subseteq> (\<lambda>a. year_month (admissionDate a)) ` set docs"
  by (auto simp: trends_pipeline_def sort_stage_set group_stage_keys match_stage_def)

lemma trend_entry_zero:
  assumes "\<forall>a\<in>set docs. year_month (admissionDate a) \<noteq> trend_id (trend_entry now (trends_pipeline now docs) i)"
  shows "trend_count (trend_entry now (trends_pipeline now docs) i) = 0 \<and>
         trend_revenue (trend_entry now (trends_pipeline now docs) i) = 0"
proof -
  let ?raw = "trends_pipeline now docs"
  let ?target = "new_Date_1 (getFullYear now) (int (getMonth now) - int i)"
  let ?P = "\<lambda>item::(int \<times> nat) \<times> nat \<times> rat.
      fst (fst item) = getFullYear ?target \<and> snd (fst item) = getMonth ?target + 1"
  have id: "trend_id (trend_entry now ?raw i) = (getFullYear ?target, getMonth ?target + 1)"
    by (simp add: trend_entry_def Let_def)
  have "find ?P ?raw = None"
  proof (rule ccontr)
    assume "find ?P ?raw \<noteq> None"
    then obtain item where item: "item \<in> set ?raw" "?P item"
      by (auto simp: find_None_iff)
    from item(2) have "fst item = trend_id (trend_entry now ?raw i)"
      by (simp add: id prod_eq_iff)
    moreover from item(1) have "fst item \<in> fst ` set ?raw"
      by (rule imageI)
    ultimately have "trend_id (trend_entry now ?raw i) \<in> (\<lambda>a. year_month (admissionDate a)) ` set docs"
      using trends_pipeline_keys [of now docs] by auto
    with assms show False by auto
  qed
  then show ?thesis
    by (simp add: trend_entry_def Let_def)
qed

subsection \<open>Revenue\<close>



subsection \<open>Failing queries\<close>









lemma sample_request_ok: "\<not> falsy (req_userId sample_request)"
  by (simp add: falsy_def req_userId_def sample_request_def)

section \<open>Properties of the dashboard\<close>

subsection \<open>Growth percentages\<close>



text \<open>
  Claim C10. The growth expression is a finite number for every pair of counts: the
  division, which has no finite result for a divisor 0, is what the expression
  evaluates exactly when the prior count is positive.
\<close>

theorem growth_never_divides_by_zero:
  "(\<exists>g. round_tenth (growth_expr current prior) = Some g) \<and>
   (growth_expr current prior =
      map_option (\<lambda>q. q * 100) (js_div (of_nat current - of_nat prior) (of_nat prior))
    \<longleftrightarrow> prior > 0)"
proof -
  have "\<exists>g. growth_expr current prior = Some g"
    by (simp add: growth_expr_def js_div_def)
  then obtain g where "growth_expr current prior = Some g" ..
  then have "round_tenth (growth_expr current prior) = Some (of_int (Math_round (g * 10)) / 10)"
    by (simp add: round_tenth_def)
  then have "\<exists>g. round_tenth (growth_expr current prior) = Some g" ..
  moreover have "growth_expr current prior =
      map_option (\<lambda>q. q * 100) (js_div (of_nat current - of_nat prior) (of_nat prior))
    \<longleftrightarrow> prior > 0"
    by (simp add: growth_expr_def js_div_def)
  ultimately show ?thesis by blast
qed

subsection \<open>Staff count\<close>

text \<open>
  Claim C2. In a successful overview and in successful quick stats, the reported staff
  count is the number of user documents whose role is teacher or admin and whose
  \<open>isActive\<close> field is true.
\<close>

theorem staff_count:
  "(getDashboardOverview F now req s = (resp, s', qs) \<and> body resp = OkBody r \<longrightarrow>
      totalTeachers (overview r) = length (filter is_active_staff (users s))) \<and>
   (getQuickStats F req s = (resp', s'', qs') \<and> body resp' = OkBody q \<longrightarrow>
      staffTotal q = length (filter is_active_staff (users s)))"
proof -
  have "user_matches staff_filter = is_active_staff"
    by (rule ext) (auto simp: user_matches_def staff_filter_def is_active_staff_def)
  then have staff: "count_users staff_filter (users s) = length (filter is_active_staff (users s))"
    by (simp add: count_users_def)
  show ?thesis
    using staff overview_body_Inr(2) [OF overview_ok] quick_body_Inr [OF quick_ok]
    by metis
qed

text \<open>In the sample store one of the four users is such a document.\<close>

theorem staff_count_witness:
  "totalTeachers (overview sample_report) = 1 \<and>
   staffTotal \<lparr>totalActive = 3, totalPending = 1, staffTotal = 1\<rparr> = 1 \<and>
   length (filter is_active_staff (users sample_store)) = 1"
proof -
  have n: "length (filter is_active_staff (users sample_store)) = 1"
    by (simp add: is_active_staff_def sample_defs)
  from staff_count [of no_faults sample_now sample_request sample_store
      "\<lparr>http_status = 200, body = OkBody sample_report\<rparr>" sample_store overview_queries
      sample_report
      "\<lparr>http_status = 200, body = OkBody \<lparr>totalActive = 3, totalPending = 1, staffTotal = 1\<rparr>\<rparr>"
      sample_store
      "[(AdmissionModel, CountDocuments), (AdmissionModel, CountDocuments), (UserModel, CountDocuments)]"
      "\<lparr>totalActive = 3, totalPending = 1, staffTotal = 1\<rparr>"]
  show ?thesis
    by (simp add: sample_overview sample_quick n)
qed

subsection \<open>Distributions\<close>

text \<open>
  Claim C6. Each distribution list of a successful overview is sorted ascending by its
  key, has no key twice, and its keys are exactly the classes (the batches) of the
  active admissions.
\<close>

theorem distribution_sorted_complete:
  assumes "getDashboardOverview F now req s = (resp, s', qs)" and "body resp = OkBody r"
  shows "sorted (map fst (byClass (distribution r))) \<and>
         distinct (map fst (byClass (distribution r))) \<and>
         set (map fst (byClass (distribution r))) = adm_class ` set (active_admissions (admissions s)) \<and>
         sorted (map fst (byBatch (distribution r))) \<and>
         distinct (map fst (byBatch (distribution r))) \<and>
         set (map fst (byBatch (distribution r))) = batch ` set (active_admissions (admissions s))"
proof -
  from assms have run: "overview_body F now (s, []) = (Inr r, (s', qs))"
    by (rule overview_ok)
  show ?thesis
    by (simp add: overview_body_Inr(7) [OF run] overview_body_Inr(8) [OF run]
        count_by_sorted count_by_distinct count_by_keys)
qed

text \<open>The sample store has active admissions in the classes 8 and 9 and the batches 1 and 2.\<close>

theorem distribution_sorted_complete_witness:
  "map fst (byClass (distribution sample_report)) = [8, 9] \<and>
   adm_class ` set (active_admissions (admissions sample_store)) = {8, 9} \<and>
   map fst (byBatch (distribution sample_report)) = [1, 2] \<and>
   batch ` set (active_admissions (admissions sample_store)) = {1, 2}"
proof -
  have b: "body \<lparr>http_status = 200, body = OkBody sample_report\<rparr> = OkBody sample_report"
    by simp
  have k: "map fst (byClass (distribution sample_report)) = [8, 9]"
    "map fst (byBatch (distribution sample_report)) = [1, 2]"
    by (simp_all add: sample_report_def)
  from distribution_sorted_complete [OF sample_overview b] show ?thesis
    by (auto simp: k)
qed

subsection \<open>Requests without an identity\<close>

text \<open>
  Claim C7. A request whose user identifier is absent (or empty) is answered with status
  401 by both handlers, without a single query being issued.
\<close>

theorem unauthenticated_no_queries:
  assumes "falsy (req_userId req)"
  shows "getDashboardOverview F now req s =
           (\<lparr>http_status = 401,
             body = ErrBody ''Unauthorized - User not authenticated'' None\<rparr>, s, []) \<and>
         getQuickStats F req s =
           (\<lparr>http_status = 401, body = ErrBody ''Unauthorized'' None\<rparr>, s, [])"
  using assms by (simp add: getDashboardOverview_def getQuickStats_def)

text \<open>A request that carries no user at all.\<close>

theorem unauthenticated_no_queries_witness:
  "falsy (req_userId anonymous_request) \<and>
   getDashboardOverview no_faults sample_now anonymous_request sample_store =
     (\<lparr>http_status = 401,
       body = ErrBody ''Unauthorized - User not authenticated'' None\<rparr>, sample_store, []) \<and>
   getQuickStats no_faults anonymous_request sample_store =
     (\<lparr>http_status = 401, body = ErrBody ''Unauthorized'' None\<rparr>, sample_store, [])"
proof -
  have h: "falsy (req_userId anonymous_request)"
    by (simp add: falsy_def req_userId_def anonymous_request_def)
  from h unauthenticated_no_queries [OF h] show ?thesis
    by simp
qed

subsection \<open>Repeated calls\<close>


subsection \<open>Monthly trends\<close>

text \<open>
  Claim C3. At a current time the server's clock can show, the trend series of a
  successful overview has exactly six entries; the last one is the current month and
  each entry is the calendar month after the entry before it, so the series runs from
  the month five months back, oldest first, to the current month; and an entry whose
  month holds no admission of the store has count 0 and revenue 0.
\<close>

theorem monthly_trends_series:
  assumes "wf_now now"
    and "getDashboardOverview F now req s = (resp, s', qs)" and "body resp = OkBody r"
  shows "length (monthlyTrends r) = 6 \<and>
         trend_id (last (monthlyTrends r)) = (year now, month0 now + 1) \<and>
         (\<forall>j<5. trend_id (monthlyTrends r ! Suc j) = next_month (trend_id (monthlyTrends r ! j))) \<and>
         (\<forall>t\<in>set (monthlyTrends r).
            (\<forall>a\<in>set (admissions s). year_month (admissionDate a) \<noteq> trend_id t) \<longrightarrow>
            trend_count t = 0 \<and> trend_revenue t = 0)"
proof -
  let ?raw = "trends_pipeline now (admissions s)"
  let ?k = "year now * 12 + int (month0 now)"
  from assms(2,3) have run: "overview_body F now (s, []) = (Inr r, (s', qs))"
    by (rule overview_ok)
  have ts: "monthlyTrends r = map (trend_entry now ?raw) [5, 4, 3, 2, 1, 0]"
    by (simp only: overview_body_Inr(9) [OF run] fill_months_5)
  have len: "length (monthlyTrends r) = 6"
    by (simp add: ts)
  from assms(1) have "month0 now < 12"
    by (simp add: wf_now_def)
  then have cur: "trend_id (last (monthlyTrends r)) = (year now, month0 now + 1)"
    by (simp add: ts trend_entry_id [OF assms(1)] month_id_now)
  have step: "trend_id (monthlyTrends r ! Suc j) = next_month (trend_id (monthlyTrends r ! j))"
    if "j < 5" for j
  proof -
    from that have "j = 0 \<or> j = 1 \<or> j = 2 \<or> j = 3 \<or> j = 4"
      by arith
    moreover have "month_id (?k - 4) = next_month (month_id (?k - 5))"
      "month_id (?k - 3) = next_month (month_id (?k - 4))"
      "month_id (?k - 2) = next_month (month_id (?k - 3))"
      "month_id (?k - 1) = next_month (month_id (?k - 2))"
      "month_id ?k = next_month (month_id (?k - 1))"
      using month_id_next [of "?k - 5"] month_id_next [of "?k - 4"] month_id_next [of "?k - 3"]
        month_id_next [of "?k - 2"] month_id_next [of "?k - 1"]
      by (simp_all add: algebra_simps)
    ultimately show ?thesis
      by (auto simp: ts trend_entry_id [OF assms(1)])
  qed
  have zero: "trend_count t = 0 \<and> trend_revenue t = 0"
    if "t \<in> set (monthlyTrends r)"
      and "\<forall>a\<in>set (admissions s). year_month (admissionDate a) \<noteq> trend_id t" for t
  proof -
    from that(1) obtain i where "t = trend_entry now ?raw i"
      by (auto simp: ts)
    with that(2) show ?thesis
      using trend_entry_zero [of "admissions s" now i] by simp
  qed
  from len cur step zero show ?thesis
    by blast
qed

text \<open>The sample run: October 2023 to March 2024, with no admission in October.\<close>

theorem monthly_trends_series_witness:
  "wf_now sample_now \<and>
   body \<lparr>http_status = 200, body = OkBody sample_report\<rparr> = OkBody sample_report \<and>
   length (monthlyTrends sample_report) = 6 \<and>
   map trend_id (monthlyTrends sample_report) =
     [(2023, 10), (2023, 11), (2023, 12), (2024, 1), (2024, 2), (2024, 3)] \<and>
   next_month (2023, 12) = (2024, 1) \<and>
   trend_count (monthlyTrends sample_report ! 0) = 0 \<and>
   trend_revenue (monthlyTrends sample_report ! 0) = 0"
proof -
  have w: "wf_now sample_now"
    by (simp add: wf_now_def sample_now_def)
  have b: "body \<lparr>http_status = 200, body = OkBody sample_report\<rparr> = OkBody sample_report"
    by simp
  have t: "monthlyTrends sample_report =
      [\<lparr>trend_id = (2023, 10), trend_count = 0, trend_revenue = 0\<rparr>,
       \<lparr>trend_id = (2023, 11), trend_count = 0, trend_revenue = 0\<rparr>,
       \<lparr>trend_id = (2023, 12), trend_count = 1, trend_revenue = 900\<rparr>,
       \<lparr>trend_id = (2024, 1), trend_count = 0, trend_revenue = 0\<rparr>,
       \<lparr>trend_id = (2024, 2), trend_count = 3, trend_revenue = 7401 / 2\<rparr>,
       \<lparr>trend_id = (2024, 3), trend_count = 1, trend_revenue = 1800\<rparr>]"
    by (simp add: sample_report_def)
  from monthly_trends_series [OF w sample_overview b] w show ?thesis
    by (simp add: t next_month_def)
qed

subsection \<open>The window of the previous month\<close>

text \<open>
  Claim C4. The upper bound of the previous-month window, \<open>endOfLastMonth\<close>, is midnight
  at the start of the last day of the previous month, not its last instant. On 15 March
  2024 an admission dated 29 February at noon lies in the previous calendar month, yet
  neither last-month count includes it (and the window of the current month starts
  only on 1 March); with one admission in March both reported growth figures
  are 100, where one admission after one would give 0.
\<close>

theorem last_day_of_previous_month_not_counted:
  "in_previous_month sample_now (admissionDate (hd leap_day_admissions)) \<and>
   endOfLastMonth sample_now = \<lparr>year = 2024, month0 = 1, day = 29, msOfDay = 0\<rparr> \<and>
   count_admissions (last_month sample_now active_only) leap_day_admissions = 0 \<and>
   count_admissions (last_month sample_now any_admission) leap_day_admissions = 0 \<and>
   count_admissions (this_month sample_now any_admission) leap_day_admissions = 1 \<and>
   map_option growth
     (report_of (fst (getDashboardOverview no_faults sample_now sample_request
        \<lparr>admissions = leap_day_admissions, users = []\<rparr>))) =
     Some \<lparr>studentGrowth = Some 100, admissionGrowth = Some 100\<rparr>"
  by (simp add: getDashboardOverview_def overview_body_def store_ops await_def issue_def
      return_io_def falsy_def req_userId_def pipeline_defs filter_defs date_defs sample_defs
      leap_day_admissions_def growth_expr_def round_tenth_def js_div_def report_of_def
      Math_round_def fill_months_5 in_previous_month_def)

subsection \<open>Revenue\<close>




subsection \<open>Failing queries\<close>




end
